theory Spec2Isabelle
  imports Complex_Main
begin

section \<open>JavaScript values\<close>

text \<open>
  The values that reach \<open>api\<close> (app/static/js/app.js) as its \<open>body\<close> argument and that
  \<open>res.json()\<close> produces. A finite number is the rational it denotes, so \<open>0\<close> and \<open>-0\<close>
  coincide (both are falsy). An object is the list of its own properties, each key once.
\<close>

datatype number = NaN | PosInfinity | NegInfinity | Finite rat

datatype jsval =
    JUndefined
  | JNull
  | JBool bool
  | JNum number
  | JStr string
  | JArr "jsval list"
  | JObj "(string \<times> jsval) list"

text \<open>ToBoolean, as \<open>if (body)\<close> and \<open>||\<close> apply it.\<close>

fun truthy :: "jsval \<Rightarrow> bool" where
  "truthy JUndefined = False"
| "truthy JNull = False"
| "truthy (JBool b) = b"
| "truthy (JNum n) = (n \<noteq> NaN \<and> n \<noteq> Finite 0)"
| "truthy (JStr s) = (s \<noteq> '''')"
| "truthy (JArr xs) = True"
| "truthy (JObj ps) = True"

text \<open>\<open>a || b\<close>: the left operand when it is truthy, the right one otherwise.\<close>

definition js_or :: "jsval \<Rightarrow> jsval \<Rightarrow> jsval" where
  "js_or a b = (if truthy a then a else b)"

text \<open>
  Property read \<open>v.k\<close> for the two keys line 11 reads, \<open>error\<close> and \<open>message\<close>, which no
  prototype of a parsed JSON value defines: an object yields its own property or
  \<open>undefined\<close>, any other non-nullish value yields \<open>undefined\<close>, and reading a property of
  \<open>null\<close> or \<open>undefined\<close> throws a TypeError (\<open>None\<close>).
\<close>

definition field :: "(string \<times> jsval) list \<Rightarrow> string \<Rightarrow> jsval" where
  "field ps k = (case map_of ps k of None \<Rightarrow> JUndefined | Some v \<Rightarrow> v)"

fun get_prop :: "jsval \<Rightarrow> string \<Rightarrow> jsval option" where
  "get_prop JUndefined k = None"
| "get_prop JNull k = None"
| "get_prop (JObj ps) k = Some (field ps k)"
| "get_prop v k = Some JUndefined"

text \<open>
  ToString, which \<open>new Error(v)\<close> applies to its argument to make the message. The text of
  a number is the platform's and comes as the parameter \<open>nt\<close>. An array is the texts of its
  elements joined by commas, \<open>null\<close> and \<open>undefined\<close> elements giving the empty text. A
  parsed JSON object gives \<open>[object Object]\<close>, unless it has an own property \<open>toString\<close>:
  that property is not callable, \<open>valueOf\<close> returns no primitive either, and the
  conversion throws a TypeError (\<open>None\<close>).
\<close>

fun ToString :: "(number \<Rightarrow> string) \<Rightarrow> jsval \<Rightarrow> string option"
  and Array_join :: "(number \<Rightarrow> string) \<Rightarrow> jsval list \<Rightarrow> string option" where
  "ToString nt JUndefined = Some ''undefined''"
| "ToString nt JNull = Some ''null''"
| "ToString nt (JBool b) = Some (if b then ''true'' else ''false'')"
| "ToString nt (JNum n) = Some (nt n)"
| "ToString nt (JStr s) = Some s"
| "ToString nt (JArr xs) = Array_join nt xs"
| "ToString nt (JObj ps) =
     (if map_of ps ''toString'' = None then Some ''[object Object]'' else None)"
| "Array_join nt [] = Some ''''"
| "Array_join nt (x # xs) =
     (case (if x = JUndefined \<or> x = JNull then Some '''' else ToString nt x) of
        None \<Rightarrow> None
      | Some t \<Rightarrow>
          if xs = [] then Some t
          else (case Array_join nt xs of
                  None \<Rightarrow> None
                | Some r \<Rightarrow> Some (t @ '','' @ r)))"

section \<open>The request helper \<open>api\<close>\<close>

text \<open>
  The text \<open>JSON.stringify\<close> produces for a value is kept symbolic: the serialiser is the
  platform's.
\<close>

datatype payload = JSON_stringify jsval

record request_init =
  "method" :: string
  headers :: "(string \<times> string) list"
  body :: "payload option"

text \<open>
  What \<open>api\<close> reads of a fetch response: the \<open>ok\<close> flag, the status text, and the outcome
  of \<open>res.json()\<close>, which is \<open>None\<close> when that promise rejects (the body is not valid JSON,
  or cannot be read).
\<close>

record response =
  ok :: bool
  statusText :: string
  json :: "jsval option"

datatype fetch_result = NetworkFailure | Resolved response

text \<open>
  How the promise returned by \<open>api\<close> can reject: \<open>fetch\<close> rejected (line 8); the
  \<open>Error\<close> thrown on line 11, with its message; a TypeError raised on line 11, by reading
  a property of \<open>null\<close> or by a value that has no string conversion; and the rejection of
  \<open>res.json()\<close> on line 13.
\<close>

datatype rejection =
    FetchRejected
  | Error string
  | TypeError
  | JsonRejected

text \<open>\<open>throw new Error(v)\<close>: the message is \<open>ToString(v)\<close>.\<close>

definition throw_new_Error :: "(number \<Rightarrow> string) \<Rightarrow> jsval \<Rightarrow> rejection" where
  "throw_new_Error nt v = (case ToString nt v of None \<Rightarrow> TypeError | Some t \<Rightarrow> Error t)"

record call =
  url :: string
  init :: request_init
  settled :: "rejection + jsval"

text \<open>
  \<open>api url method body\<close>, lines 2 to 14, against a transport \<open>fetch\<close> and the platform's
  text of numbers \<open>nt\<close>. An omitted \<open>method\<close> is \<open>None\<close>; an omitted \<open>body\<close> is
  \<open>JUndefined\<close>. The result records the request handed to \<open>fetch\<close> and how the returned
  promise settles: \<open>Inr v\<close> resolves with \<open>v\<close>, \<open>Inl r\<close> rejects.
\<close>

definition api ::
  "(number \<Rightarrow> string) \<Rightarrow> (string \<Rightarrow> request_init \<Rightarrow> fetch_result) \<Rightarrow>
     string \<Rightarrow> string option \<Rightarrow> jsval \<Rightarrow> call" where
  "api nt fetch u method_arg body_arg =
    (let method = (case method_arg of None \<Rightarrow> ''GET'' | Some m \<Rightarrow> m);
         body = (if body_arg = JUndefined then JNull else body_arg);
         opts = \<lparr>method = method,
                 headers = [(''Content-Type'', ''application/json'')],
                 body = None\<rparr>;
         opts = (if truthy body then opts\<lparr>body := Some (JSON_stringify body)\<rparr> else opts)
     in \<lparr>url = u, init = opts, settled =
          (case fetch u opts of
             NetworkFailure \<Rightarrow> Inl FetchRejected
           | Resolved res \<Rightarrow>
               if \<not> ok res then
                 (let err = (case json res of
                               Some v \<Rightarrow> v
                             | None \<Rightarrow> JObj [(''error'', JStr (statusText res))])
                  in case get_prop err ''error'' of
                       None \<Rightarrow> Inl TypeError
                     | Some e \<Rightarrow>
                         if truthy e then Inl (throw_new_Error nt e)
                         else (case get_prop err ''message'' of
                                 None \<Rightarrow> Inl TypeError
                               | Some m \<Rightarrow>
                                   Inl (throw_new_Error nt
                                          (js_or m (JStr ''Request failed'')))))
               else (case json res of
                       Some v \<Rightarrow> Inr v
                     | None \<Rightarrow> Inl JsonRejected))\<rparr>)"

text \<open>A transport that answers every request with the same outcome.\<close>

definition respond_with :: "fetch_result \<Rightarrow> string \<Rightarrow> request_init \<Rightarrow> fetch_result" where
  "respond_with r u opts = r"

text \<open>A text of numbers that is the same for every number, for calls that print none.\<close>

definition same_text :: "string \<Rightarrow> number \<Rightarrow> string" where
  "same_text t n = t"

text \<open>The parsed bodies that are neither an object nor \<open>null\<close>.\<close>

fun array_or_primitive :: "jsval \<Rightarrow> bool" where
  "array_or_primitive (JBool b) = True"
| "array_or_primitive (JNum n) = True"
| "array_or_primitive (JStr s) = True"
| "array_or_primitive (JArr xs) = True"
| "array_or_primitive v = False"

section \<open>The page state\<close>

text \<open>
  The script addresses the page through fixed element ids. The state holds, for each such
  element, the part of it the script writes, together with the timer queue and clock of
  the event loop and the \<open>localStorage\<close> area. The page is taken to contain the modal, toast
  and loading elements (the script dereferences them unguarded); the presence of the
  \<open>theme-toggle\<close> element is tested by the script and is a field.
\<close>

text \<open>
  The nodes below an element: an element with its tag, its id (empty when it has none) and
  its children, or a text node. Markup assigned to \<open>innerHTML\<close> is given as the nodes the
  browser's parser builds from it.
\<close>

datatype node = Element string string "node list" | TextNode string

text \<open>
  Assigning \<open>textContent\<close> leaves one text node, and no node for the empty string.
\<close>

definition text_nodes :: "string \<Rightarrow> node list" where
  "text_nodes t = (if t = '''' then [] else [TextNode t])"


text \<open>
  \<open>getElementById(i).innerHTML = new\<close> within a list of nodes: the first element of id
  \<open>i\<close> in document order gets the children \<open>new\<close>; \<open>None\<close> when no element there has
  that id.
\<close>

fun write_node :: "string \<Rightarrow> node list \<Rightarrow> node \<Rightarrow> node option"
  and write_nodes :: "string \<Rightarrow> node list \<Rightarrow> node list \<Rightarrow> node list option" where
  "write_node i new (TextNode t) = None"
| "write_node i new (Element tag j ks) =
     (if j = i then Some (Element tag j new)
      else (case write_nodes i new ks of
              None \<Rightarrow> None
            | Some ks' \<Rightarrow> Some (Element tag j ks')))"
| "write_nodes i new [] = None"
| "write_nodes i new (n # ns) =
     (case write_node i new n of
        Some n' \<Rightarrow> Some (n' # ns)
      | None \<Rightarrow> (case write_nodes i new ns of
                   None \<Rightarrow> None
                 | Some ns' \<Rightarrow> Some (n # ns')))"

text \<open>
  A toast element: \<open>node\<close> is the identity of the element \<open>document.createElement\<close>
  returned.
\<close>

record toast =
  node :: nat
  className :: string
  textContent :: string

record ui =
  modal_title :: "node list"
  modal_body :: "node list"
  modal_footer :: "node list"
  modal_overlay :: "string list"
  loading_message :: "node list"
  loading_overlay :: "string list"
  toast_container :: "toast list"
  timers :: "(nat \<times> nat) list"
  now :: nat
  fresh :: nat
  data_theme :: "string option"
  localStorage :: "string \<rightharpoonup> string"
  theme_toggle :: bool
  toggle_wired :: bool

text \<open>
  Field by field: the children of \<open>#modal-title\<close>, \<open>#modal-body\<close>, \<open>#modal-footer\<close>; the
  class list of \<open>#modal-overlay\<close>; the children of \<open>#loading-message\<close>; the class list of
  \<open>#loading-overlay\<close>; the children of \<open>#toast-container\<close>; the pending timers, each the
  time in milliseconds at which it is due and the toast its callback removes; the clock in
  milliseconds; the next unused element identity; the \<open>data-theme\<close> attribute of the root
  element (\<open>None\<close> when absent); the storage area; whether \<open>#theme-toggle\<close> exists; whether
  the click listener of lines 65 to 70 is attached to it.
\<close>

text \<open>
  \<open>getElementById\<close> returns the first element of the id in document order. The page is
  taken to hold \<open>#modal-title\<close>, \<open>#modal-body\<close> and \<open>#modal-footer\<close> in this order inside
  \<open>#modal-overlay\<close>. Then, among the lookups of the modal, the one that markup written
  by the script can take over is that of \<open>modal-footer\<close> on line 20, by an element of the
  body written on line 19: an element is found before its own descendants, the title holds
  text only, and the footer comes after the body. The toast and loading elements are taken
  to be the ones found under their ids.
\<close>

text \<open>\<open>classList.add\<close> and \<open>classList.remove\<close> on the ordered set of class tokens.\<close>

definition classList_add :: "string \<Rightarrow> string list \<Rightarrow> string list" where
  "classList_add c cs = (if c \<in> set cs then cs else cs @ [c])"

definition classList_remove :: "string \<Rightarrow> string list \<Rightarrow> string list" where
  "classList_remove c cs = removeAll c cs"

section \<open>Modal\<close>

text \<open>
  \<open>openModal(title, bodyHtml, footerHtml)\<close>, lines 17 to 22. An omitted footer is \<open>None\<close>;
  \<open>footerHtml || ''\<close> replaces it, like the empty string, by the empty markup. Line 20
  looks \<open>modal-footer\<close> up after line 19 has written the body: when an element of the
  body has that id, the footer markup becomes the children of that element and
  \<open>#modal-footer\<close> itself is left as it was.
\<close>

definition openModal :: "string \<Rightarrow> node list \<Rightarrow> node list option \<Rightarrow> ui \<Rightarrow> ui" where
  "openModal title bodyHtml footerHtml s =
     (let s = s\<lparr>modal_title := text_nodes title\<rparr>;
          s = s\<lparr>modal_body := bodyHtml\<rparr>;
          footer = (case footerHtml of None \<Rightarrow> [] | Some f \<Rightarrow> f);
          s = (case write_nodes ''modal-footer'' footer (modal_body s) of
                 Some body' \<Rightarrow> s\<lparr>modal_body := body'\<rparr>
               | None \<Rightarrow> s\<lparr>modal_footer := footer\<rparr>)
      in s\<lparr>modal_overlay := classList_remove ''hidden'' (modal_overlay s)\<rparr>)"

text \<open>\<open>closeModal()\<close>, lines 24 to 26.\<close>

definition closeModal :: "ui \<Rightarrow> ui" where
  "closeModal s = s\<lparr>modal_overlay := classList_add ''hidden'' (modal_overlay s)\<rparr>"

text \<open>
  The two document listeners, lines 29 to 31 and 34 to 36, applied to the id of the click's
  target and to the key of the key press.
\<close>

definition on_click :: "string \<Rightarrow> ui \<Rightarrow> ui" where
  "on_click target_id s = (if target_id = ''modal-overlay'' then closeModal s else s)"

definition on_keydown :: "string \<Rightarrow> ui \<Rightarrow> ui" where
  "on_keydown key s = (if key = ''Escape'' then closeModal s else s)"

text \<open>
  The dialog the page shows: the overlay is displayed unless its class list holds
  \<open>hidden\<close>, and the page has this one overlay.
\<close>

record dialog =
  dialog_title :: "node list"
  dialog_body :: "node list"
  dialog_footer :: "node list"

definition visible_dialogs :: "ui \<Rightarrow> dialog list" where
  "visible_dialogs s =
     (if ''hidden'' \<in> set (modal_overlay s) then []
      else [\<lparr>dialog_title = modal_title s, dialog_body = modal_body s,
             dialog_footer = modal_footer s\<rparr>])"

section \<open>Toast notifications\<close>

text \<open>
  \<open>showToast(message, type)\<close>, lines 39 to 46; an omitted \<open>type\<close> is \<open>None\<close>.
  \<open>setTimeout(f, 4000)\<close> queues the callback at the current time plus 4000 ms.
\<close>

definition showToast :: "string \<Rightarrow> string option \<Rightarrow> ui \<Rightarrow> ui" where
  "showToast message type_arg s =
     (let type = (case type_arg of None \<Rightarrow> ''success'' | Some t \<Rightarrow> t);
          toast = \<lparr>node = fresh s, className = ''toast '' @ type, textContent = message\<rparr>
      in s\<lparr>fresh := Suc (fresh s),
           toast_container := toast_container s @ [toast],
           timers := timers s @ [(now s + 4000, node toast)]\<rparr>)"

text \<open>
  The timer callback \<open>() => toast.remove()\<close> for the toast of identity \<open>n\<close>: the element
  leaves its parent; removing an element that is not in the container changes nothing.
\<close>

definition toast_remove :: "nat \<Rightarrow> ui \<Rightarrow> ui" where
  "toast_remove n s = s\<lparr>toast_container := filter (\<lambda>t. node t \<noteq> n) (toast_container s)\<rparr>"

text \<open>
  The event loop over \<open>ms\<close> milliseconds without any other event: the clock advances and
  every timer that has come due runs its callback and leaves the queue. Time is the
  loop's own: a callback runs when the clock reaches its due time.
\<close>

definition elapse :: "nat \<Rightarrow> ui \<Rightarrow> ui" where
  "elapse ms s =
     (let t = now s + ms;
          due = filter (\<lambda>(d, n). d \<le> t) (timers s);
          s' = fold (\<lambda>(d, n). toast_remove n) due s
      in s'\<lparr>now := t, timers := filter (\<lambda>(d, n). \<not> d \<le> t) (timers s)\<rparr>)"

section \<open>Loading overlay\<close>

text \<open>\<open>showLoading(message)\<close> and \<open>hideLoading()\<close>, lines 49 to 56.\<close>

definition showLoading :: "string option \<Rightarrow> ui \<Rightarrow> ui" where
  "showLoading message_arg s =
     (let message = (case message_arg of None \<Rightarrow> ''Processing...'' | Some m \<Rightarrow> m)
      in s\<lparr>loading_message := text_nodes message,
           loading_overlay := classList_remove ''hidden'' (loading_overlay s)\<rparr>)"

definition hideLoading :: "ui \<Rightarrow> ui" where
  "hideLoading s = s\<lparr>loading_overlay := classList_add ''hidden'' (loading_overlay s)\<rparr>"

section \<open>Theme toggle\<close>

text \<open>
  The \<open>DOMContentLoaded\<close> handler, lines 59 to 72. \<open>getItem\<close> yields \<open>null\<close> for a missing
  key, so \<open>|| 'dark'\<close> replaces a missing and an empty stored value.
\<close>

definition on_DOMContentLoaded :: "ui \<Rightarrow> ui" where
  "on_DOMContentLoaded s =
     (let saved = (case localStorage s ''theme'' of
                     None \<Rightarrow> ''dark''
                   | Some v \<Rightarrow> if v \<noteq> '''' then v else ''dark'');
          s = s\<lparr>data_theme := Some saved\<rparr>
      in if theme_toggle s then s\<lparr>toggle_wired := True\<rparr> else s)"

text \<open>The click listener of the toggle, lines 65 to 70.\<close>

definition on_toggle_click :: "ui \<Rightarrow> ui" where
  "on_toggle_click s =
     (let current = data_theme s;
          next = (if current = Some ''dark'' then ''light'' else ''dark'')
      in s\<lparr>data_theme := Some next,
           localStorage := (localStorage s)(''theme'' \<mapsto> next)\<rparr>)"

text \<open>A click on the toggle control runs the listener when it is attached.\<close>

definition click_theme_toggle :: "ui \<Rightarrow> ui" where
  "click_theme_toggle s = (if toggle_wired s then on_toggle_click s else s)"

text \<open>
  A page load: the document \<open>page\<close> as parsed from its markup, with no listener attached
  yet, over the storage area \<open>store\<close> that outlives the page; then \<open>DOMContentLoaded\<close>.
\<close>

definition page_load :: "ui \<Rightarrow> (string \<rightharpoonup> string) \<Rightarrow> ui" where
  "page_load page store =
     on_DOMContentLoaded (page\<lparr>localStorage := store, toggle_wired := False\<rparr>)"

section \<open>Sequences of operations\<close>

datatype event =
    OpenModal string "node list" "node list option"
  | CloseModal
  | Click string
  | Keydown string
  | ShowToast string "string option"
  | ShowLoading "string option"
  | HideLoading
  | ClickThemeToggle
  | Elapse nat

fun step :: "event \<Rightarrow> ui \<Rightarrow> ui" where
  "step (OpenModal t b f) s = openModal t b f s"
| "step CloseModal s = closeModal s"
| "step (Click target_id) s = on_click target_id s"
| "step (Keydown key) s = on_keydown key s"
| "step (ShowToast m t) s = showToast m t s"
| "step (ShowLoading m) s = showLoading m s"
| "step HideLoading s = hideLoading s"
| "step ClickThemeToggle s = click_theme_toggle s"
| "step (Elapse ms) s = elapse ms s"

definition run :: "event list \<Rightarrow> ui \<Rightarrow> ui" where
  "run es s = fold step es s"

text \<open>
  Element identities are handed out in order: every toast in the container and every
  pending timer refers to an identity already used.
\<close>

definition fresh_ok :: "ui \<Rightarrow> bool" where
  "fresh_ok s = ((\<forall>t \<in> set (toast_container s). node t < fresh s)
               \<and> (\<forall>(d, n) \<in> set (timers s). n < fresh s))"

text \<open>
  The life of the toast \<open>T\<close> whose timer is due at \<open>d\<close>: before \<open>d\<close> it is in the container,
  once, with its timer pending and no other timer aimed at it; from \<open>d\<close> on it is not.
\<close>

definition alive :: "toast \<Rightarrow> nat \<Rightarrow> ui \<Rightarrow> bool" where
  "alive T d s =
     (fresh_ok s \<and> node T < fresh s
      \<and> (if now s < d
          then filter (\<lambda>t. node t = node T) (toast_container s) = [T]
               \<and> (d, node T) \<in> set (timers s)
               \<and> (\<forall>(d', n) \<in> set (timers s). n = node T \<longrightarrow> d' = d)
          else filter (\<lambda>t. node t = node T) (toast_container s) = []))"

section \<open>Scenarios\<close>

text \<open>The request and the two answers of the specification's scenarios.\<close>

definition draft_one :: jsval where
  "draft_one = JObj [(''title'', JStr ''Draft One'')]"

definition created :: response where
  "created = \<lparr>ok = True, statusText = ''Created'',
     json = Some (JObj [(''id'', JNum (Finite 1)), (''title'', JStr ''Draft One'')])\<rparr>"

definition bad_request :: response where
  "bad_request = \<lparr>ok = False, statusText = ''Bad Request'',
     json = Some (JObj [(''error'', JStr ''title is required'')])\<rparr>"

text \<open>
  Two failing answers: one over HTTP/2, which has no status text, with a body that is not
  JSON; one whose JSON body carries an empty \<open>error\<close> string.
\<close>

definition unparsable_no_status :: response where
  "unparsable_no_status = \<lparr>ok = False, statusText = '''', json = None\<rparr>"

definition empty_error :: response where
  "empty_error = \<lparr>ok = False, statusText = ''Bad Request'',
     json = Some (JObj [(''error'', JStr '''')])\<rparr>"




text \<open>A page with every overlay hidden, no toast, no timer and an empty storage area.\<close>

definition blank_page :: ui where
  "blank_page =
     \<lparr>modal_title = [], modal_body = [], modal_footer = [],
      modal_overlay = [''modal-overlay'', ''hidden''],
      loading_message = [], loading_overlay = [''loading-overlay'', ''hidden''],
      toast_container = [], timers = [], now = 0, fresh = 0,
      data_theme = None, localStorage = Map.empty,
      theme_toggle = True, toggle_wired = False\<rparr>"

section \<open>Escaping for display\<close>









section \<open>Properties of \<open>api\<close>\<close>

lemma api_request:
  "init (api nt fetch u m b) =
     \<lparr>method = (case m of None \<Rightarrow> ''GET'' | Some x \<Rightarrow> x),
      headers = [(''Content-Type'', ''application/json'')],
      body = (if truthy b then Some (JSON_stringify b) else None)\<rparr>"
  by (cases b) (simp_all add: api_def Let_def)

lemma api_url: "url (api nt fetch u m b) = u"
  by (simp add: api_def Let_def)

lemma api_settled:
  "settled (api nt fetch u m b) =
     (case fetch u (init (api nt fetch u m b)) of
        NetworkFailure \<Rightarrow> Inl FetchRejected
      | Resolved res \<Rightarrow>
          if \<not> ok res then
            (let err = (case json res of
                          Some v \<Rightarrow> v
                        | None \<Rightarrow> JObj [(''error'', JStr (statusText res))])
             in case get_prop err ''error'' of
                  None \<Rightarrow> Inl TypeError
                | Some e \<Rightarrow>
                    if truthy e then Inl (throw_new_Error nt e)
                    else (case get_prop err ''message'' of
                            None \<Rightarrow> Inl TypeError
                          | Some m \<Rightarrow>
                              Inl (throw_new_Error nt (js_or m (JStr ''Request failed'')))))
          else (case json res of
                  Some v \<Rightarrow> Inr v
                | None \<Rightarrow> Inl JsonRejected))"
  by (simp add: api_def Let_def)

text \<open>
  C1. When the response has a success status, the promise resolves with exactly the value
  \<open>res.json()\<close> parsed from the body, unchanged.
\<close>

theorem api_success_returns_parsed_body:
  assumes "fetch u (init (api nt fetch u m b)) = Resolved res"
    and "ok res"
    and "json res = Some v"
  shows "settled (api nt fetch u m b) = Inr v"
  using assms by (simp add: api_settled)

text \<open>The scenario of the specification: a POST answered 201 with the created project.\<close>

theorem api_success_returns_parsed_body_witness:
  "ok created
   \<and> json created = Some (JObj [(''id'', JNum (Finite 1)), (''title'', JStr ''Draft One'')])
   \<and> settled (api (same_text '''') (respond_with (Resolved created)) ''/api/projects''
        (Some ''POST'') draft_one)
       = Inr (JObj [(''id'', JNum (Finite 1)), (''title'', JStr ''Draft One'')])"
  using api_success_returns_parsed_body [of "respond_with (Resolved created)" "''/api/projects''"
      "same_text ''''" "Some ''POST''" draft_one created
      "JObj [(''id'', JNum (Finite 1)), (''title'', JStr ''Draft One'')]"]
  by (simp add: respond_with_def created_def)

text \<open>
  A success status does not make the body JSON (a 204 has none): then the promise rejects
  with the rejection of \<open>res.json()\<close>.
\<close>

lemma api_success_unparsable_body:
  assumes "fetch u (init (api nt fetch u m b)) = Resolved res"
    and "ok res"
    and "json res = None"
  shows "settled (api nt fetch u m b) = Inl JsonRejected"
  using assms by (simp add: api_settled)

text \<open>
  C2, as stated, fails. With a body that is not JSON and an empty status text the message
  is \<open>Request failed\<close>, not the status text; with a JSON body whose \<open>error\<close> field is the
  empty string the message is \<open>Request failed\<close>, not that field's value.
\<close>

theorem api_failure_message_counterexample:
  "\<not> ok unparsable_no_status \<and> json unparsable_no_status = None
   \<and> settled (api (same_text '''') (respond_with (Resolved unparsable_no_status))
        ''/api/projects'' (Some ''POST'') draft_one) = Inl (Error ''Request failed'')
   \<and> ''Request failed'' \<noteq> statusText unparsable_no_status
   \<and> \<not> ok empty_error \<and> json empty_error = Some (JObj [(''error'', JStr '''')])
   \<and> settled (api (same_text '''') (respond_with (Resolved empty_error))
        ''/api/projects'' (Some ''POST'') draft_one) = Inl (Error ''Request failed'')
   \<and> ''Request failed'' \<noteq> ''''"
  by (simp add: api_settled respond_with_def unparsable_no_status_def empty_error_def
      field_def js_or_def throw_new_Error_def)

text \<open>How a failing response settles, case by case on what \<open>res.json()\<close> gave.\<close>

lemma failure_fallback:
  "field [(''error'', x)] ''error'' = x"
  "field [(''error'', x)] ''message'' = JUndefined"
  by (simp_all add: field_def)

lemma api_failure_unparsable:
  assumes "fetch u (init (api nt fetch u m b)) = Resolved res"
    and "\<not> ok res"
    and "json res = None"
  shows "settled (api nt fetch u m b) =
           Inl (Error (if statusText res \<noteq> '''' then statusText res else ''Request failed''))"
  using assms by (simp add: api_settled js_or_def failure_fallback throw_new_Error_def)

lemma api_failure_object:
  assumes "fetch u (init (api nt fetch u m b)) = Resolved res"
    and "\<not> ok res"
    and "json res = Some (JObj ps)"
  shows "settled (api nt fetch u m b) =
           Inl (throw_new_Error nt
                 (if truthy (field ps ''error'') then field ps ''error''
                  else if truthy (field ps ''message'') then field ps ''message''
                  else JStr ''Request failed''))"
  using assms by (simp add: api_settled js_or_def)

lemma api_failure_array_or_primitive:
  assumes "fetch u (init (api nt fetch u m b)) = Resolved res"
    and "\<not> ok res"
    and "json res = Some v"
    and "array_or_primitive v"
  shows "settled (api nt fetch u m b) = Inl (Error ''Request failed'')"
  using assms by (cases v) (simp_all add: api_settled js_or_def throw_new_Error_def)

text \<open>The body \<open>null\<close>: line 11 reads a property of \<open>null\<close> and throws a TypeError.\<close>

lemma api_failure_null_body:
  assumes "fetch u (init (api nt fetch u m b)) = Resolved res"
    and "\<not> ok res"
    and "json res = Some JNull"
  shows "settled (api nt fetch u m b) = Inl TypeError"
  using assms by (simp add: api_settled)

text \<open>
  C2, amended. For a response with a failure status whose body is not the JSON value
  \<open>null\<close>, \<open>||\<close> picks the first truthy of the \<open>error\<close> field, the \<open>message\<close> field and
  \<open>Request failed\<close>, and the message of the rejection is the string conversion of the
  value picked. So: a non-empty \<open>error\<close> string is the message; with \<open>error\<close> absent or
  falsy, a non-empty \<open>message\<close> string is the message; with both absent or falsy, and for
  a body that is a JSON array, string, number or boolean, the message is \<open>Request
  failed\<close>; a truthy field that is not a string gives its string conversion, and a
  TypeError when it has none. When the body is not valid JSON the message is the status
  text if that is non-empty, and \<open>Request failed\<close> if it is empty.
\<close>

theorem api_failure_message:
  assumes "fetch u (init (api nt fetch u m b)) = Resolved res"
    and "\<not> ok res"
  shows "(json res = Some (JObj ps) \<and> field ps ''error'' = JStr x \<and> x \<noteq> '''' \<longrightarrow>
            settled (api nt fetch u m b) = Inl (Error x))
       \<and> (json res = Some (JObj ps) \<and> \<not> truthy (field ps ''error'')
            \<and> field ps ''message'' = JStr y \<and> y \<noteq> '''' \<longrightarrow>
            settled (api nt fetch u m b) = Inl (Error y))
       \<and> (json res = Some (JObj ps) \<and> \<not> truthy (field ps ''error'')
            \<and> \<not> truthy (field ps ''message'') \<longrightarrow>
            settled (api nt fetch u m b) = Inl (Error ''Request failed''))
       \<and> (json res = Some v \<and> array_or_primitive v \<longrightarrow>
            settled (api nt fetch u m b) = Inl (Error ''Request failed''))
       \<and> (json res = Some (JObj ps) \<and> truthy (field ps ''error'') \<longrightarrow>
            settled (api nt fetch u m b) =
              Inl (case ToString nt (field ps ''error'') of
                     Some t \<Rightarrow> Error t
                   | None \<Rightarrow> TypeError))
       \<and> (json res = Some (JObj ps) \<and> \<not> truthy (field ps ''error'')
            \<and> truthy (field ps ''message'') \<longrightarrow>
            settled (api nt fetch u m b) =
              Inl (case ToString nt (field ps ''message'') of
                     Some t \<Rightarrow> Error t
                   | None \<Rightarrow> TypeError))
       \<and> (json res = None \<and> statusText res \<noteq> '''' \<longrightarrow>
            settled (api nt fetch u m b) = Inl (Error (statusText res)))
       \<and> (json res = None \<and> statusText res = '''' \<longrightarrow>
            settled (api nt fetch u m b) = Inl (Error ''Request failed''))"
proof -
  have parsed: "json res = Some (JObj ps) \<Longrightarrow>
      settled (api nt fetch u m b) =
        Inl (throw_new_Error nt
              (if truthy (field ps ''error'') then field ps ''error''
               else if truthy (field ps ''message'') then field ps ''message''
               else JStr ''Request failed''))"
    using assms by (rule api_failure_object)
  have other: "json res = Some v \<Longrightarrow> array_or_primitive v \<Longrightarrow>
      settled (api nt fetch u m b) = Inl (Error ''Request failed'')"
    using assms by (rule api_failure_array_or_primitive)
  have unparsed: "json res = None \<Longrightarrow>
      settled (api nt fetch u m b) =
        Inl (Error (if statusText res \<noteq> '''' then statusText res else ''Request failed''))"
    using assms by (rule api_failure_unparsable)
  show ?thesis
    using parsed other unparsed
    by (auto simp add: throw_new_Error_def split: option.splits)
qed

text \<open>
  The scenario of the specification, a POST answered 400 with an \<open>error\<close> string; and an
  \<open>error\<close> field that is an empty array, whose string conversion is the empty message.
\<close>

theorem api_failure_message_witness:
  "\<not> ok bad_request
   \<and> json bad_request = Some (JObj [(''error'', JStr ''title is required'')])
   \<and> settled (api (same_text '''') (respond_with (Resolved bad_request)) ''/api/projects''
        (Some ''POST'') draft_one) = Inl (Error ''title is required'')
   \<and> settled (api (same_text '''')
        (respond_with (Resolved \<lparr>ok = False, statusText = ''Bad Request'',
           json = Some (JObj [(''error'', JArr [])])\<rparr>))
        ''/api/projects'' (Some ''POST'') draft_one) = Inl (Error '''')"
  using
    api_failure_message [of "respond_with (Resolved bad_request)" "''/api/projects''"
      "same_text ''''" "Some ''POST''" draft_one bad_request
      "[(''error'', JStr ''title is required'')]" "''title is required''"]
    api_failure_message [of "respond_with (Resolved \<lparr>ok = False, statusText = ''Bad Request'',
           json = Some (JObj [(''error'', JArr [])])\<rparr>)" "''/api/projects''"
      "same_text ''''" "Some ''POST''" draft_one "\<lparr>ok = False, statusText = ''Bad Request'',
           json = Some (JObj [(''error'', JArr [])])\<rparr>" "[(''error'', JArr [])]"]
  by (simp add: respond_with_def bad_request_def field_def)

text \<open>
  C3, as stated, fails: the body \<open>0\<close> is present and not null, and the request goes out
  with no body.
\<close>

theorem api_sends_present_body_counterexample:
  "JNum (Finite 0) \<noteq> JNull \<and> JNum (Finite 0) \<noteq> JUndefined
   \<and> body (init (api (same_text '''') (respond_with (Resolved created)) ''/api/projects''
        (Some ''POST'') (JNum (Finite 0)))) = None"
  by (simp add: api_request)

text \<open>
  C3, amended. Every request carries the JSON content-type header, and every call whose
  body argument is truthy (not \<open>null\<close>, \<open>undefined\<close>, \<open>false\<close>, \<open>0\<close>, \<open>NaN\<close> or the empty
  string) hands \<open>fetch\<close> the url and that body serialised by \<open>JSON.stringify\<close>.
\<close>

theorem api_sends_truthy_body:
  "url (api nt fetch u m b) = u
   \<and> headers (init (api nt fetch u m b)) = [(''Content-Type'', ''application/json'')]
   \<and> (truthy b \<longrightarrow> body (init (api nt fetch u m b)) = Some (JSON_stringify b))"
  by (simp add: api_request api_url)

theorem api_sends_truthy_body_witness:
  "truthy draft_one
   \<and> headers (init (api (same_text '''') (respond_with (Resolved created)) ''/api/projects''
        (Some ''POST'') draft_one)) = [(''Content-Type'', ''application/json'')]
   \<and> body (init (api (same_text '''') (respond_with (Resolved created)) ''/api/projects''
        (Some ''POST'') draft_one)) = Some (JSON_stringify draft_one)"
  using api_sends_truthy_body [of "same_text ''''" "respond_with (Resolved created)"
      "''/api/projects''" "Some ''POST''" draft_one]
  by (simp add: draft_one_def)

text \<open>
  C9. Whether a body is sent is decided by truthiness: for the falsy JSON values \<open>null\<close>,
  \<open>0\<close>, \<open>false\<close> and the empty string the request has no body, whatever the method; and
  in general the body is sent exactly when the argument is truthy.
\<close>

theorem api_falsy_body_not_sent:
  "(b \<in> {JNull, JNum (Finite 0), JBool False, JStr ''''} \<longrightarrow>
      body (init (api nt fetch u m b)) = None)
   \<and> ((body (init (api nt fetch u m b)) = None) = (\<not> truthy b))"
  by (auto simp add: api_request)

theorem api_falsy_body_not_sent_witness:
  "JBool False \<in> {JNull, JNum (Finite 0), JBool False, JStr ''''}
   \<and> body (init (api (same_text '''') (respond_with (Resolved created)) ''/api/projects''
        (Some ''PUT'') (JBool False))) = None"
  using api_falsy_body_not_sent [of "JBool False" "same_text ''''"
      "respond_with (Resolved created)" "''/api/projects''" "Some ''PUT''"]
  by simp

section \<open>Properties of the modal\<close>


lemma add_present: "c \<in> set cs \<Longrightarrow> classList_add c cs = cs"
  by (simp add: classList_add_def)









text \<open>
  C5. When no dialog is open, a click on the backdrop and an Escape key press leave the
  whole page state as it is, and so does \<open>closeModal\<close> itself.
\<close>

theorem close_when_closed_is_noop:
  assumes "visible_dialogs s = []"
  shows "on_click ''modal-overlay'' s = s \<and> on_keydown ''Escape'' s = s \<and> closeModal s = s"
proof -
  from assms have "''hidden'' \<in> set (modal_overlay s)"
    by (simp add: visible_dialogs_def split: if_splits)
  then have "closeModal s = s"
    by (simp add: closeModal_def add_present)
  then show ?thesis
    by (simp add: on_click_def on_keydown_def)
qed

theorem close_when_closed_is_noop_witness:
  "visible_dialogs blank_page = []
   \<and> on_click ''modal-overlay'' blank_page = blank_page
   \<and> on_keydown ''Escape'' blank_page = blank_page"
proof -
  have closed: "visible_dialogs blank_page = []"
    by (simp add: visible_dialogs_def blank_page_def)
  with close_when_closed_is_noop [OF closed] show ?thesis by simp
qed

section \<open>Properties of the toasts\<close>

lemma fold_toast_remove:
  "fold (\<lambda>(d, n). toast_remove n) ts s =
     s\<lparr>toast_container := filter (\<lambda>t. node t \<notin> snd ` set ts) (toast_container s)\<rparr>"
proof (induction ts arbitrary: s)
  case Nil
  then show ?case by simp
next
  case (Cons a ts)
  obtain d n where a: "a = (d, n)" by (cases a)
  have "fold (\<lambda>(d, n). toast_remove n) (a # ts) s
          = fold (\<lambda>(d, n). toast_remove n) ts (toast_remove n s)"
    by (simp add: a)
  also have "\<dots> = (toast_remove n s)\<lparr>toast_container :=
      filter (\<lambda>t. node t \<notin> snd ` set ts) (toast_container (toast_remove n s))\<rparr>"
    by (rule Cons.IH)
  also have "\<dots> = s\<lparr>toast_container :=
      filter (\<lambda>t. node t \<notin> snd ` set (a # ts)) (toast_container s)\<rparr>"
    by (simp add: toast_remove_def a conj_commute)
  finally show ?case .
qed

text \<open>What \<open>elapse\<close> comes to: the toasts aimed at by a due timer go, the others stay.\<close>

lemma elapse_eq:
  "elapse ms s =
     s\<lparr>toast_container :=
         filter (\<lambda>t. node t \<notin> snd ` {x \<in> set (timers s). fst x \<le> now s + ms})
           (toast_container s),
       now := now s + ms,
       timers := filter (\<lambda>x. \<not> fst x \<le> now s + ms) (timers s)\<rparr>"
  unfolding elapse_def Let_def fold_toast_remove
  by (simp add: case_prod_unfold)

lemma filter_node_removed:
  "filter (\<lambda>t. node t \<notin> R \<and> node t = i) cs =
     (if i \<in> R then [] else filter (\<lambda>t. node t = i) cs)"
  by (induction cs) auto

lemma alive_showToast: "alive T d s \<Longrightarrow> alive T d (showToast m ty s)"
  by (auto simp: alive_def fresh_ok_def showToast_def Let_def split: if_splits)

lemma alive_elapse:
  assumes "alive T d s"
  shows "alive T d (elapse ms s)"
proof -
  let ?t = "now s + ms"
  let ?R = "snd ` {x \<in> set (timers s). fst x \<le> ?t}"
  have ok: "fresh_ok (elapse ms s)" and lt: "node T < fresh (elapse ms s)"
    using assms by (auto simp: alive_def fresh_ok_def elapse_eq)
  show ?thesis
  proof (cases "?t < d")
    case True
    then have early: "now s < d" by simp
    with assms have one: "filter (\<lambda>t. node t = node T) (toast_container s) = [T]"
      and pending: "(d, node T) \<in> set (timers s)"
      and only: "\<forall>(d', n) \<in> set (timers s). n = node T \<longrightarrow> d' = d"
      by (simp_all add: alive_def)
    from only True have "node T \<notin> ?R" by force
    with one pending only True ok lt show ?thesis
      by (auto simp: alive_def elapse_eq filter_node_removed)
  next
    case False
    have "filter (\<lambda>t. node t = node T) (toast_container (elapse ms s)) = []"
    proof (cases "now s < d")
      case True
      with assms have "(d, node T) \<in> set (timers s)" by (simp add: alive_def)
      with False have "node T \<in> ?R" by force
      then show ?thesis by (simp add: elapse_eq filter_node_removed)
    next
      case False
      with assms have "filter (\<lambda>t. node t = node T) (toast_container s) = []"
        by (simp add: alive_def)
      then show ?thesis by (simp add: elapse_eq filter_node_removed)
    qed
    with False ok lt show ?thesis by (simp add: alive_def elapse_eq)
  qed
qed

lemma openModal_toasts:
  "toast_container (openModal t b f s) = toast_container s"
  "timers (openModal t b f s) = timers s"
  "now (openModal t b f s) = now s"
  "fresh (openModal t b f s) = fresh s"
  by (simp_all add: openModal_def Let_def split: option.splits)

lemma alive_openModal: "alive T d s \<Longrightarrow> alive T d (openModal t b f s)"
  by (simp add: alive_def fresh_ok_def openModal_toasts)

lemma alive_step: "alive T d s \<Longrightarrow> alive T d (step e s)"
proof (cases e)
  case (OpenModal t b f)
  assume "alive T d s"
  then show ?thesis unfolding OpenModal by (simp add: alive_openModal)
next
  case (ShowToast m ty)
  assume "alive T d s"
  then show ?thesis unfolding ShowToast by (simp add: alive_showToast)
next
  case (Elapse ms)
  assume "alive T d s"
  then show ?thesis unfolding Elapse by (simp add: alive_elapse)
qed (simp_all add: alive_def fresh_ok_def closeModal_def on_click_def
      on_keydown_def showLoading_def hideLoading_def click_theme_toggle_def on_toggle_click_def
      Let_def)

lemma alive_run: "alive T d s \<Longrightarrow> alive T d (run es s)"
  unfolding run_def by (induction es arbitrary: s) (simp_all add: alive_step)

lemma alive_created:
  "fresh_ok s \<Longrightarrow>
   alive \<lparr>node = fresh s,
          className = ''toast '' @ (case ty of None \<Rightarrow> ''success'' | Some t \<Rightarrow> t),
          textContent = m\<rparr> (now s + 4000) (showToast m ty s)"
  by (auto simp: alive_def fresh_ok_def showToast_def Let_def filter_empty_conv)

text \<open>
  C6. On the clock of the event loop, a toast created by \<open>showToast\<close> at time \<open>now s\<close> is
  in the container, once and with its class and message, at every later moment before
  \<open>now s + 4000\<close> and at none from then on, whatever else happens in between: other toasts
  shown and removed, clicks, key presses, no event at all. And the timer callback of one
  toast leaves every other toast of the container as it was.
\<close>

theorem toast_expires_after_4000_ms:
  assumes "fresh_ok s"
  shows "filter (\<lambda>t. node t = fresh s) (toast_container (run es (showToast m ty s))) =
           (if now (run es (showToast m ty s)) < now s + 4000
            then [\<lparr>node = fresh s,
                   className = ''toast '' @ (case ty of None \<Rightarrow> ''success'' | Some t \<Rightarrow> t),
                   textContent = m\<rparr>]
            else [])
       \<and> filter (\<lambda>t. node t \<noteq> n) (toast_container (toast_remove n s')) =
           filter (\<lambda>t. node t \<noteq> n) (toast_container s')"
proof -
  let ?T = "\<lparr>node = fresh s,
             className = ''toast '' @ (case ty of None \<Rightarrow> ''success'' | Some t \<Rightarrow> t),
             textContent = m\<rparr>"
  have "alive ?T (now s + 4000) (showToast m ty s)"
    using assms by (rule alive_created)
  then have "alive ?T (now s + 4000) (run es (showToast m ty s))"
    by (rule alive_run)
  then show ?thesis by (simp add: alive_def toast_remove_def split: if_splits)
qed

text \<open>
  \<open>x\<close> shown at time 0 and \<open>y\<close> at 3999: at 3999 \<open>x\<close> is still there; at 4000 \<open>x\<close> is
  gone and \<open>y\<close> is there.
\<close>

theorem toast_expires_after_4000_ms_witness:
  "fresh_ok blank_page
   \<and> filter (\<lambda>t. node t = 0)
       (toast_container (run [Elapse 3999, ShowToast ''y'' None] (showToast ''x'' None blank_page)))
       = [\<lparr>node = 0, className = ''toast success'', textContent = ''x''\<rparr>]
   \<and> filter (\<lambda>t. node t = 0)
       (toast_container (run [Elapse 3999, ShowToast ''y'' None, Elapse 1]
          (showToast ''x'' None blank_page))) = []
   \<and> toast_container (run [Elapse 3999, ShowToast ''y'' None, Elapse 1]
          (showToast ''x'' None blank_page))
       = [\<lparr>node = 1, className = ''toast success'', textContent = ''y''\<rparr>]"
proof -
  have ok: "fresh_ok blank_page"
    by (simp add: fresh_ok_def blank_page_def)
  have t1: "now (run [Elapse 3999, ShowToast ''y'' None] (showToast ''x'' None blank_page)) = 3999"
    by (simp add: run_def showToast_def elapse_eq Let_def blank_page_def)
  have t2: "now (run [Elapse 3999, ShowToast ''y'' None, Elapse 1]
      (showToast ''x'' None blank_page)) = 4000"
    by (simp add: run_def showToast_def elapse_eq Let_def blank_page_def)
  have y: "toast_container (run [Elapse 3999, ShowToast ''y'' None, Elapse 1]
          (showToast ''x'' None blank_page))
       = [\<lparr>node = 1, className = ''toast success'', textContent = ''y''\<rparr>]"
    by (simp add: run_def showToast_def elapse_def toast_remove_def Let_def blank_page_def)
  have z: "fresh blank_page = 0" "now blank_page = 0"
    by (simp_all add: blank_page_def)
  show ?thesis
    using ok y
      toast_expires_after_4000_ms [OF ok, of "[Elapse 3999, ShowToast ''y'' None]" "''x''" None]
      toast_expires_after_4000_ms [OF ok, of "[Elapse 3999, ShowToast ''y'' None, Elapse 1]"
        "''x''" None]
    by (simp add: t1 t2 z)
qed

section \<open>Properties of the theme toggle\<close>

text \<open>
  C7. At page load the theme is read from the storage area, \<open>dark\<close> when nothing is
  stored, and set as the \<open>data-theme\<close> attribute; the listener is attached when the toggle
  exists; a click on the toggle turns \<open>dark\<close> into \<open>light\<close> and \<open>light\<close> into \<open>dark\<close>,
  in the attribute and in the storage area; and the next page load over that storage area
  shows the value the click stored.
\<close>

theorem theme_startup_toggle_reload:
  "(store ''theme'' = None \<longrightarrow> data_theme (page_load page store) = Some ''dark'')
   \<and> (store ''theme'' = Some ''light'' \<longrightarrow> data_theme (page_load page store) = Some ''light'')
   \<and> (store ''theme'' = Some ''dark'' \<longrightarrow> data_theme (page_load page store) = Some ''dark'')
   \<and> (theme_toggle page \<longrightarrow> toggle_wired (page_load page store))
   \<and> (toggle_wired s \<and> data_theme s = Some ''dark'' \<longrightarrow>
        data_theme (click_theme_toggle s) = Some ''light''
        \<and> localStorage (click_theme_toggle s) ''theme'' = Some ''light'')
   \<and> (toggle_wired s \<and> data_theme s = Some ''light'' \<longrightarrow>
        data_theme (click_theme_toggle s) = Some ''dark''
        \<and> localStorage (click_theme_toggle s) ''theme'' = Some ''dark'')
   \<and> (toggle_wired s \<longrightarrow>
        data_theme (page_load page' (localStorage (click_theme_toggle s)))
          = data_theme (click_theme_toggle s))"
  by (simp add: page_load_def on_DOMContentLoaded_def click_theme_toggle_def
      on_toggle_click_def Let_def)

text \<open>
  Nothing stored: the page loads \<open>dark\<close>, a click shows and stores \<open>light\<close>, and the
  reload shows \<open>light\<close>.
\<close>

theorem theme_startup_toggle_reload_witness:
  "data_theme (page_load blank_page Map.empty) = Some ''dark''
   \<and> toggle_wired (page_load blank_page Map.empty)
   \<and> data_theme (click_theme_toggle (page_load blank_page Map.empty)) = Some ''light''
   \<and> localStorage (click_theme_toggle (page_load blank_page Map.empty)) ''theme'' = Some ''light''
   \<and> data_theme (page_load blank_page
        (localStorage (click_theme_toggle (page_load blank_page Map.empty)))) = Some ''light''"
proof -
  have toggle: "theme_toggle blank_page"
    by (simp add: blank_page_def)
  show ?thesis
    using toggle theme_startup_toggle_reload [of Map.empty blank_page
        "page_load blank_page Map.empty" blank_page]
    by simp
qed

text \<open>
  C10. The displayed value is not confined to \<open>dark\<close> and \<open>light\<close>: at startup a stored
  non-empty string becomes the attribute as it is, and the toggle turns every current
  value other than \<open>dark\<close>, an absent attribute included, into \<open>dark\<close>, displayed and
  stored.
\<close>

theorem theme_not_confined:
  "(localStorage s ''theme'' = Some v \<and> v \<noteq> '''' \<longrightarrow>
      data_theme (on_DOMContentLoaded s) = Some v)
   \<and> (data_theme s \<noteq> Some ''dark'' \<longrightarrow>
        data_theme (on_toggle_click s) = Some ''dark''
        \<and> localStorage (on_toggle_click s) ''theme'' = Some ''dark'')"
  by (simp add: on_DOMContentLoaded_def on_toggle_click_def Let_def)

theorem theme_not_confined_witness:
  "data_theme (on_DOMContentLoaded (blank_page\<lparr>localStorage := [''theme'' \<mapsto> ''sepia'']\<rparr>))
     = Some ''sepia''
   \<and> data_theme (on_toggle_click (blank_page\<lparr>data_theme := Some ''sepia''\<rparr>)) = Some ''dark''
   \<and> localStorage (on_toggle_click (blank_page\<lparr>data_theme := Some ''sepia''\<rparr>)) ''theme''
       = Some ''dark''"
  using theme_not_confined [of "blank_page\<lparr>localStorage := [''theme'' \<mapsto> ''sepia'']\<rparr>" "''sepia''"]
    theme_not_confined [of "blank_page\<lparr>data_theme := Some ''sepia''\<rparr>"]
  by simp

section \<open>Properties of \<open>escHtml\<close>\<close>









end
